theory Spec2Isabelle
  imports Main "HOL-Library.Sublist"
begin

section \<open>Python values and failures\<close>

text \<open>
  The workflow file is Python. Every place where it can raise or exit is a branch of the
  model: a missing dictionary key raises \<open>KeyError\<close>, \<open>args[0]\<close> on an empty
  sequence raises \<open>IndexError\<close>, \<open>sys.exit(msg)\<close> raises \<open>SystemExit\<close>, and
  \<open>os.path.getmtime\<close> of a missing file raises \<open>FileNotFoundError\<close>. Formatting
  a pattern raises \<open>ValueError\<close> on a malformed pattern, \<open>IndexError\<close> on a
  positional field and \<open>WildcardError\<close> on a field without a value;
  \<open>FormatError\<close> stands for whatever the formatter raises on a field with an index, an
  attribute, a conversion or a format specification.
\<close>

datatype error =
    KeyError string
  | IndexError
  | SystemExit string
  | FileNotFoundError string
  | ValueError string
  | WildcardError string
  | FormatError string

text \<open>\<open>d[k]\<close> on a dictionary.\<close>

definition getitem :: "(string \<rightharpoonup> 'v) \<Rightarrow> string \<Rightarrow> error + 'v" where
  "getitem d k = (case d k of None \<Rightarrow> Inl (KeyError k) | Some v \<Rightarrow> Inr v)"

text \<open>
  A list comprehension \<open>[f(x) for x in xs]\<close> whose body may raise: the elements are
  visited in order and the first failure ends the evaluation.
\<close>

fun comprehension :: "('a \<Rightarrow> error + 'b) \<Rightarrow> 'a list \<Rightarrow> error + 'b list" where
  "comprehension f [] = Inr []"
| "comprehension f (x # xs) =
     (case f x of
        Inl e \<Rightarrow> Inl e
      | Inr y \<Rightarrow> (case comprehension f xs of
                    Inl e \<Rightarrow> Inl e
                  | Inr ys \<Rightarrow> Inr (y # ys)))"

section \<open>The sample sheet and \<open>lookup\<close>\<close>

text \<open>
  \<open>SAMPLE_SHEET\<close> is the value of \<open>read_sample_sheet\<close>, which lives in an included
  script: a list of dictionaries from column names to strings. It is a parameter of
  every function that reads it.
\<close>

type_synonym sample_record = "string \<rightharpoonup> string"
type_synonym sample_sheet = "sample_record list"

text \<open>
  The predicate of \<open>lookup\<close> is either a Python function (\<open>inspect.isfunction\<close>) or
  any other value, which is then compared with \<open>==\<close>.
\<close>

datatype predicate = Function "string \<Rightarrow> bool" | Literal string

text \<open>
  \<open>[line for line in SAMPLE_SHEET if test(line[column])]\<close>: \<open>line[column]\<close> is
  evaluated for every line, before the test.
\<close>

fun select_records :: "(string \<Rightarrow> bool) \<Rightarrow> string \<Rightarrow> sample_sheet \<Rightarrow> error + sample_sheet" where
  "select_records test column [] = Inr []"
| "select_records test column (line # rest) =
     (case getitem line column of
        Inl e \<Rightarrow> Inl e
      | Inr v \<Rightarrow> (case select_records test column rest of
                    Inl e \<Rightarrow> Inl e
                  | Inr records \<Rightarrow> Inr (if test v then line # records else records)))"

text \<open>\<open>[record[field] for record in records for field in fields]\<close>\<close>

fun record_fields :: "sample_sheet \<Rightarrow> string list \<Rightarrow> error + string list" where
  "record_fields [] fields = Inr []"
| "record_fields (record # records) fields =
     (case comprehension (getitem record) fields of
        Inl e \<Rightarrow> Inl e
      | Inr vs \<Rightarrow> (case record_fields records fields of
                     Inl e \<Rightarrow> Inl e
                   | Inr ws \<Rightarrow> Inr (vs @ ws)))"

definition lookup :: "sample_sheet \<Rightarrow> string \<Rightarrow> predicate \<Rightarrow> string list \<Rightarrow> error + string list" where
  "lookup SAMPLE_SHEET column predicate fields =
     (case (case predicate of
              Function f \<Rightarrow> select_records f column SAMPLE_SHEET
            | Literal v \<Rightarrow> select_records (\<lambda>x. x = v) column SAMPLE_SHEET) of
        Inl e \<Rightarrow> Inl e
      | Inr records \<Rightarrow> record_fields records fields)"

text \<open>The call \<open>lookup(column, predicate)\<close>: \<open>fields\<close> takes its default \<open>[]\<close>.\<close>

definition lookup_default :: "sample_sheet \<Rightarrow> string \<Rightarrow> predicate \<Rightarrow> error + string list" where
  "lookup_default SAMPLE_SHEET column predicate = lookup SAMPLE_SHEET column predicate []"

text \<open>\<open>SAMPLES = [line['name'] for line in SAMPLE_SHEET]\<close>\<close>

definition SAMPLES :: "sample_sheet \<Rightarrow> error + string list" where
  "SAMPLES SAMPLE_SHEET = comprehension (\<lambda>line. getitem line ''name'') SAMPLE_SHEET"

text \<open>
  \<open>isSingleEnd\<close> returns \<open>False\<close> for two non-empty reads entries, \<open>True\<close> for one,
  and falls off its end (Python's \<open>None\<close>) otherwise.
\<close>

definition isSingleEnd :: "sample_sheet \<Rightarrow> string list \<Rightarrow> error + bool option" where
  "isSingleEnd SAMPLE_SHEET args =
     (case args of
        [] \<Rightarrow> Inl IndexError
      | sample # _ \<Rightarrow>
          (case lookup SAMPLE_SHEET ''name'' (Literal sample) [''reads'', ''reads2''] of
             Inl e \<Rightarrow> Inl e
           | Inr files \<Rightarrow>
               (let count = length (filter (\<lambda>f. f \<noteq> []) files)
                in if count = 2 then Inr (Some False)
                   else if count = 1 then Inr (Some True)
                   else Inr None)))"

section \<open>Paths and patterns\<close>

text \<open>
  \<open>os.path.join\<close> on POSIX: a component that starts with a slash discards what came
  before it; otherwise it is appended, after a slash unless the path so far is empty or
  already ends with one.
\<close>

definition join_component :: "string \<Rightarrow> string \<Rightarrow> string" where
  "join_component path b =
     (if (case b of [] \<Rightarrow> False | c # _ \<Rightarrow> c = CHR ''/'') then b
      else if path = [] \<or> last path = CHR ''/'' then path @ b
      else path @ ''/'' @ b)"

definition os_path_join :: "string \<Rightarrow> string list \<Rightarrow> string" where
  "os_path_join a p = foldl join_component a p"

text \<open>
  \<open>expand\<close> formats its pattern with Python's string formatter, once for each value.
  The formatter reads the pattern from the left:
  \<^item> \<open>{{\<close> and \<open>}}\<close> stand for one brace; a single \<open>}\<close> is a \<open>ValueError\<close>;
  \<^item> \<open>{\<close> opens a replacement field that ends at the next \<open>}\<close>, and without one
    the pattern is a \<open>ValueError\<close>;
  \<^item> an empty or numeric field is positional and raises \<open>IndexError\<close>, since
    \<open>expand\<close> passes no positional argument; a field that is the wildcard's name is
    replaced by the value; any other name raises \<open>KeyError\<close>, which \<open>expand\<close>
    turns into its \<open>WildcardError\<close>.
  A field that holds one of \<open>{ [ : ! .\<close> asks for an index, an attribute, a conversion
  or a format specification. That part of the formatter is not modelled but taken as a
  parameter: given the wildcard's name, the value and the rest of the pattern from such a
  field on, it tells the formatted rest, or \<open>None\<close> when the formatter raises.
\<close>

type_synonym formatter = "string \<Rightarrow> string \<Rightarrow> string \<Rightarrow> string option"

function str_format :: "formatter \<Rightarrow> string \<Rightarrow> string \<Rightarrow> string \<Rightarrow> error + string" where
  "str_format py name v [] = Inr []"
| "str_format py name v (c # cs) =
     (if c = CHR ''{'' then
        (if cs \<noteq> [] \<and> hd cs = CHR ''{'' then
           (case str_format py name v (tl cs) of
              Inl e \<Rightarrow> Inl e
            | Inr r \<Rightarrow> Inr (CHR ''{'' # r))
         else if \<exists>x \<in> set (takeWhile (\<lambda>x. x \<noteq> CHR ''}'') cs). x \<in> set ''{[:!.'' then
           (case py name v (c # cs) of
              None \<Rightarrow> Inl (FormatError (c # cs))
            | Some r \<Rightarrow> Inr r)
         else if cs = [] then Inl (ValueError ''Single '{' encountered in format string'')
         else if CHR ''}'' \<notin> set cs then Inl (ValueError ''expected '}' before end of string'')
         else if list_all (\<lambda>x. x \<in> set ''0123456789'') (takeWhile (\<lambda>x. x \<noteq> CHR ''}'') cs)
           then Inl IndexError
         else if takeWhile (\<lambda>x. x \<noteq> CHR ''}'') cs = name then
           (case str_format py name v (tl (dropWhile (\<lambda>x. x \<noteq> CHR ''}'') cs)) of
              Inl e \<Rightarrow> Inl e
            | Inr r \<Rightarrow> Inr (v @ r))
         else Inl (WildcardError (takeWhile (\<lambda>x. x \<noteq> CHR ''}'') cs)))
      else if c = CHR ''}'' then
        (if cs \<noteq> [] \<and> hd cs = CHR ''}'' then
           (case str_format py name v (tl cs) of
              Inl e \<Rightarrow> Inl e
            | Inr r \<Rightarrow> Inr (CHR ''}'' # r))
         else Inl (ValueError ''Single '}' encountered in format string''))
      else
        (case str_format py name v cs of
           Inl e \<Rightarrow> Inl e
         | Inr r \<Rightarrow> Inr (c # r)))"
  by pat_completeness auto
termination
  by (relation "measure (\<lambda>(py, name, v, p). length p)")
     (auto simp: less_Suc_eq_le order_trans [OF diff_le_self length_dropWhile_le])

text \<open>
  \<open>expand(pattern, name = values)\<close>: one formatted pattern for each value, in the
  order of the values. Every pattern of the workflow ends in a component that holds its
  wildcard.
\<close>

definition expand :: "formatter \<Rightarrow> string \<Rightarrow> string \<Rightarrow> string list \<Rightarrow> error + string list" where
  "expand py pattern name vs = comprehension (\<lambda>v. str_format py name v pattern) vs"

section \<open>Configuration and output directories\<close>

text \<open>
  The entries of \<open>config\<close> that decide the output file lists:
  \<open>config['locations']['output-dir']\<close>, \<open>config['mapping']['mapper']\<close>,
  \<open>config['coverage']['tool']\<close>, the keys of \<open>config['DEanalyses']\<close> in their
  order, and \<open>config['execution']['target']\<close>.
\<close>

record config =
  OUTPUT_DIR :: string
  MAPPER :: string
  coverage_tool :: string
  DE_ANALYSIS_LIST :: "string list"
  execution_target :: "string list"

definition MULTIQC_DIR :: "config \<Rightarrow> string" where
  "MULTIQC_DIR config = os_path_join (OUTPUT_DIR config) [''multiqc'']"

definition MAPPED_READS_DIR :: "config \<Rightarrow> string" where
  "MAPPED_READS_DIR config = os_path_join (OUTPUT_DIR config) [''mapped_reads'']"

definition BIGWIG_DIR :: "config \<Rightarrow> string" where
  "BIGWIG_DIR config = os_path_join (OUTPUT_DIR config) [''bigwig_files'']"

definition COUNTS_DIR :: "config \<Rightarrow> string" where
  "COUNTS_DIR config = os_path_join (OUTPUT_DIR config) [''feature_counts'']"

definition SALMON_DIR :: "config \<Rightarrow> string" where
  "SALMON_DIR config = os_path_join (OUTPUT_DIR config) [''salmon_output'']"

section \<open>Conditional output files\<close>

definition coverage_error :: string where
  "coverage_error = ''Error with the selected coverage computation method: Allowed options for coverage computation are 'megadepth' or 'bamCoverage'; check the settings file option under coverage->tool.''"

text \<open>The three expansions of the \<open>bamCoverage\<close> branch run in the order of the source.\<close>

definition BIGWIG_OUTPUT :: "formatter \<Rightarrow> config \<Rightarrow> string list \<Rightarrow> error + string list" where
  "BIGWIG_OUTPUT py config samples =
     (if coverage_tool config = ''bamCoverage'' then
        (case expand py (os_path_join (BIGWIG_DIR config) [MAPPER config, ''bamCoverage'', ''{sample}.forward.bw'']) ''sample'' samples of
           Inl e \<Rightarrow> Inl e
         | Inr fw \<Rightarrow>
        (case expand py (os_path_join (BIGWIG_DIR config) [MAPPER config, ''bamCoverage'', ''{sample}.reverse.bw'']) ''sample'' samples of
           Inl e \<Rightarrow> Inl e
         | Inr rv \<Rightarrow>
        (case expand py (os_path_join (BIGWIG_DIR config) [MAPPER config, ''bamCoverage'', ''{sample}.bw'']) ''sample'' samples of
           Inl e \<Rightarrow> Inl e
         | Inr both \<Rightarrow> Inr (fw @ rv @ both))))
      else if coverage_tool config = ''megadepth'' then
        expand py (os_path_join (BIGWIG_DIR config) [MAPPER config, ''megadepth'', ''{sample}.all.bw'']) ''sample'' samples
      else Inl (SystemExit coverage_error))"

text \<open>
  The three collated lists stay empty without differential expression analyses;
  otherwise the three report expansions run first, in the order of the source.
\<close>

record collated =
  COLLATED_DESEQ_MAPPER_OUTPUT :: "string list"
  COLLATED_SALMON_TRANSCR_OUTPUT :: "string list"
  COLLATED_SALMON_GENES_OUTPUT :: "string list"

definition COLLATED_OUTPUT :: "formatter \<Rightarrow> config \<Rightarrow> error + collated" where
  "COLLATED_OUTPUT py config =
     (if DE_ANALYSIS_LIST config \<noteq> [] then
        (case expand py (os_path_join (OUTPUT_DIR config) [''report'', MAPPER config, ''{analysis}.deseq.report.html'']) ''analysis'' (DE_ANALYSIS_LIST config) of
           Inl e \<Rightarrow> Inl e
         | Inr repmap \<Rightarrow>
        (case expand py (os_path_join (OUTPUT_DIR config) [''report'', ''salmon'', ''{analysis}.salmon.transcripts.deseq.report.html'']) ''analysis'' (DE_ANALYSIS_LIST config) of
           Inl e \<Rightarrow> Inl e
         | Inr reptra \<Rightarrow>
        (case expand py (os_path_join (OUTPUT_DIR config) [''report'', ''salmon'', ''{analysis}.salmon.genes.deseq.report.html'']) ''analysis'' (DE_ANALYSIS_LIST config) of
           Inl e \<Rightarrow> Inl e
         | Inr repgen \<Rightarrow>
             (let colmap = [os_path_join (OUTPUT_DIR config) [''report'', MAPPER config, ''collated.deseq_results.tsv'']];
                  coltra = [os_path_join (OUTPUT_DIR config) [''report'', ''salmon'', ''collated.transcripts.deseq_results.tsv'']];
                  colgen = [os_path_join (OUTPUT_DIR config) [''report'', ''salmon'', ''collated.genes.deseq_results.tsv'']]
              in Inr \<lparr>COLLATED_DESEQ_MAPPER_OUTPUT = repmap @ colmap,
                      COLLATED_SALMON_TRANSCR_OUTPUT = reptra @ coltra,
                      COLLATED_SALMON_GENES_OUTPUT = repgen @ colgen\<rparr>))))
      else Inr \<lparr>COLLATED_DESEQ_MAPPER_OUTPUT = [],
                COLLATED_SALMON_TRANSCR_OUTPUT = [],
                COLLATED_SALMON_GENES_OUTPUT = []\<rparr>)"

section \<open>Target groups\<close>

record target =
  description :: string
  files :: "string list"

text \<open>
  The dictionary \<open>targets\<close>, in the order of its literal; its keys are pairwise
  different, so looking a name up in the list is looking it up in the dictionary. The
  literal calls \<open>expand\<close> four times; the calls are made first here, in their order in
  the literal, since any of them ends the construction when it raises.
\<close>

definition targets :: "formatter \<Rightarrow> config \<Rightarrow> string list \<Rightarrow> string list \<Rightarrow> collated \<Rightarrow> error + (string \<times> target) list" where
  "targets py config samples bigwig col =
   (case expand py (os_path_join (MAPPED_READS_DIR config) [''star'', ''{sample}_Aligned.sortedByCoord.out.bam'']) ''sample'' samples of
      Inl e \<Rightarrow> Inl e
    | Inr star_bam \<Rightarrow>
   (case expand py (os_path_join (MAPPED_READS_DIR config) [''hisat2'', ''{sample}_Aligned.sortedByCoord.out.bam'']) ''sample'' samples of
      Inl e \<Rightarrow> Inl e
    | Inr hisat2_bam \<Rightarrow>
   (case expand py (os_path_join (SALMON_DIR config) [''{sample}'', ''quant.sf'']) ''sample'' samples of
      Inl e \<Rightarrow> Inl e
    | Inr quant_sf \<Rightarrow>
   (case expand py (os_path_join (SALMON_DIR config) [''{sample}'', ''quant.genes.sf'']) ''sample'' samples of
      Inl e \<Rightarrow> Inl e
    | Inr quant_genes_sf \<Rightarrow> Inr
   [(''help'',
       \<lparr>description = ''Print all rules and their descriptions.'',
        files = []\<rparr>),
    (''final-report'',
       \<lparr>description = ''Produce a comprehensive report.  This is the default target.'',
        files =
          [os_path_join (OUTPUT_DIR config) [''input_annotation_stats.tsv''],
           os_path_join (MULTIQC_DIR config) [''multiqc_report.html''],
           os_path_join (COUNTS_DIR config) [''raw_counts'', ''salmon'', ''counts_from_SALMON.transcripts.tsv''],
           os_path_join (COUNTS_DIR config) [''raw_counts'', ''salmon'', ''counts_from_SALMON.genes.tsv''],
           os_path_join (COUNTS_DIR config) [''normalized'', ''salmon'', ''TPM_counts_from_SALMON.transcripts.tsv''],
           os_path_join (COUNTS_DIR config) [''normalized'', ''salmon'', ''TPM_counts_from_SALMON.genes.tsv''],
           os_path_join (COUNTS_DIR config) [''raw_counts'', MAPPER config, ''counts.tsv''],
           os_path_join (COUNTS_DIR config) [''normalized'', MAPPER config, ''deseq_normalized_counts.tsv''],
           os_path_join (COUNTS_DIR config) [''normalized'', MAPPER config, ''deseq_size_factors.txt'']] @
          bigwig @
          COLLATED_DESEQ_MAPPER_OUTPUT col @
          COLLATED_SALMON_TRANSCR_OUTPUT col @
          COLLATED_SALMON_GENES_OUTPUT col\<rparr>),
    (''deseq_report_star'',
       \<lparr>description = ''Produce one HTML report for each analysis based on STAR results.'',
        files = COLLATED_DESEQ_MAPPER_OUTPUT col\<rparr>),
    (''deseq_report_hisat2'',
       \<lparr>description = ''Produce one HTML report for each analysis based on Hisat2 results.'',
        files = COLLATED_DESEQ_MAPPER_OUTPUT col\<rparr>),
    (''deseq_report_salmon_transcripts'',
       \<lparr>description = ''Produce one HTML report for each analysis based on SALMON results at transcript level.'',
        files = COLLATED_SALMON_TRANSCR_OUTPUT col\<rparr>),
    (''deseq_report_salmon_genes'',
       \<lparr>description = ''Produce one HTML report for each analysis based on SALMON results at gene level.'',
        files = COLLATED_SALMON_GENES_OUTPUT col\<rparr>),
    (''star_map'',
       \<lparr>description = ''Produce a STAR mapping results in BAM file format.'',
        files = star_bam\<rparr>),
    (''star_counts'',
       \<lparr>description = ''Get count matrix from STAR mapping results using summarizeOverlaps.'',
        files = [os_path_join (COUNTS_DIR config) [''raw_counts'', ''star'', ''counts.tsv'']]\<rparr>),
    (''hisat2_map'',
       \<lparr>description = ''Produce Hisat2 mapping results in BAM file format.'',
        files = hisat2_bam\<rparr>),
    (''hisat2_counts'',
       \<lparr>description = ''Get count matrix from Hisat2 mapping results using summarizeOverlaps.'',
        files = [os_path_join (COUNTS_DIR config) [''raw_counts'', ''hisat2'', ''counts.tsv'']]\<rparr>),
    (''genome_coverage'',
       \<lparr>description = ''Compute genome coverage values from BAM files - save in bigwig format'',
        files = bigwig\<rparr>),
    (''salmon_index'',
       \<lparr>description = ''Create SALMON index file.'',
        files = [os_path_join (OUTPUT_DIR config) [''salmon_index'', ''pos.bin'']]\<rparr>),
    (''salmon_quant'',
       \<lparr>description = ''Calculate read counts per transcript using SALMON.'',
        files = quant_sf @ quant_genes_sf\<rparr>),
    (''salmon_counts'',
       \<lparr>description = ''Get count matrix from SALMON quant.'',
        files =
          [os_path_join (COUNTS_DIR config) [''raw_counts'', ''salmon'', ''counts_from_SALMON.transcripts.tsv''],
           os_path_join (COUNTS_DIR config) [''raw_counts'', ''salmon'', ''counts_from_SALMON.genes.tsv''],
           os_path_join (COUNTS_DIR config) [''normalized'', ''salmon'', ''TPM_counts_from_SALMON.transcripts.tsv''],
           os_path_join (COUNTS_DIR config) [''normalized'', ''salmon'', ''TPM_counts_from_SALMON.genes.tsv'']]\<rparr>),
    (''multiqc'',
       \<lparr>description = ''Get multiQC report based on alignments and QC reports.'',
        files = [os_path_join (MULTIQC_DIR config) [''multiqc_report.html'']]\<rparr>)]))))"

text \<open>
  The module runs top to bottom: \<open>SAMPLES\<close>, then the coverage branch (which may
  exit), then the collated lists, then the \<open>targets\<close> dictionary.
\<close>

definition workflow_targets :: "formatter \<Rightarrow> config \<Rightarrow> sample_sheet \<Rightarrow> error + (string \<times> target) list" where
  "workflow_targets py config SAMPLE_SHEET =
     (case SAMPLES SAMPLE_SHEET of
        Inl e \<Rightarrow> Inl e
      | Inr samples \<Rightarrow>
          (case BIGWIG_OUTPUT py config samples of
             Inl e \<Rightarrow> Inl e
           | Inr bigwig \<Rightarrow>
               (case COLLATED_OUTPUT py config of
                  Inl e \<Rightarrow> Inl e
                | Inr col \<Rightarrow> targets py config samples bigwig col)))"

text \<open>\<open>selected_targets = config['execution']['target'] or ['final-report']\<close>\<close>

definition selected_targets :: "config \<Rightarrow> string list" where
  "selected_targets config =
     (if execution_target config = [] then [''final-report''] else execution_target config)"

text \<open>\<open>targets[name]['files']\<close>\<close>

definition target_files :: "(string \<times> target) list \<Rightarrow> string \<Rightarrow> error + string list" where
  "target_files tgs name =
     (case getitem (map_of tgs) name of Inl e \<Rightarrow> Inl e | Inr t \<Rightarrow> Inr (files t))"

text \<open>
  \<open>OUTPUT_FILES\<close>: one pass of \<open>chain.from_iterable\<close> over the selected groups'
  file lists, then the annotations archive is appended.
\<close>

definition OUTPUT_FILES :: "formatter \<Rightarrow> config \<Rightarrow> sample_sheet \<Rightarrow> error + string list" where
  "OUTPUT_FILES py config SAMPLE_SHEET =
     (case workflow_targets py config SAMPLE_SHEET of
        Inl e \<Rightarrow> Inl e
      | Inr tgs \<Rightarrow>
          (case comprehension (target_files tgs) (selected_targets config) of
             Inl e \<Rightarrow> Inl e
           | Inr file_lists \<Rightarrow>
               Inr (concat file_lists @ [os_path_join (OUTPUT_DIR config) [''annotations.tgz'']])))"

section \<open>The flattening operation on Python values\<close>





section \<open>Recording and reporting changed files\<close>

text \<open>
  The file system is a map from paths to modification times: a path exists when it has
  one. The handlers only compare times with \<open>!=\<close>, so the type of times is left
  open. \<open>expected_files\<close> is the module's dictionary, passed in and returned.
\<close>

type_synonym 't filesystem = "string \<rightharpoonup> 't"

fun onstart_loop :: "'t filesystem \<Rightarrow> string list \<Rightarrow> (string \<rightharpoonup> 't) \<Rightarrow> (string \<rightharpoonup> 't)" where
  "onstart_loop fs [] expected_files = expected_files"
| "onstart_loop fs (name # rest) expected_files =
     onstart_loop fs rest
       (case fs name of
          Some t \<Rightarrow> expected_files(name \<mapsto> t)
        | None \<Rightarrow> expected_files)"

definition onstart :: "string list \<Rightarrow> 't filesystem \<Rightarrow> (string \<rightharpoonup> 't) \<Rightarrow> (string \<rightharpoonup> 't)" where
  "onstart output_files fs expected_files =
     (if output_files \<noteq> [] then onstart_loop fs output_files expected_files
      else expected_files)"

text \<open>
  The loop of \<open>onsuccess\<close> that collects \<open>generated\<close>. The \<open>or\<close> is lazy:
  \<open>os.path.getmtime\<close> is called only for a name that was recorded, and raises when
  the file is gone.
\<close>

fun generated_loop :: "'t filesystem \<Rightarrow> (string \<rightharpoonup> 't) \<Rightarrow> string list \<Rightarrow> string list \<Rightarrow> error + string list" where
  "generated_loop fs expected_files [] generated = Inr generated"
| "generated_loop fs expected_files (name # rest) generated =
     (case expected_files name of
        None \<Rightarrow> generated_loop fs expected_files rest (generated @ [name])
      | Some t0 \<Rightarrow>
          (case fs name of
             None \<Rightarrow> Inl (FileNotFoundError name)
           | Some t \<Rightarrow>
               if t \<noteq> t0 then generated_loop fs expected_files rest (generated @ [name])
               else generated_loop fs expected_files rest generated))"

text \<open>\<open>onsuccess\<close> returns the lines it prints.\<close>

definition onsuccess :: "string list \<Rightarrow> 't filesystem \<Rightarrow> (string \<rightharpoonup> 't) \<Rightarrow> error + string list" where
  "onsuccess output_files fs expected_files =
     (if output_files \<noteq> [] then
        (case generated_loop fs expected_files output_files [] of
           Inl e \<Rightarrow> Inl e
         | Inr generated \<Rightarrow>
             if generated \<noteq> [] then
               Inr (''The following files have been generated:'' #
                    map (\<lambda>name. ''  - '' @ name) generated)
             else Inr [])
      else Inr [])"

section \<open>Notions of the specification\<close>

text \<open>A value matches a predicate: the test function holds of it, or it equals the literal.\<close>

definition matches :: "predicate \<Rightarrow> string \<Rightarrow> bool" where
  "matches p v = (case p of Function f \<Rightarrow> f v | Literal s \<Rightarrow> v = s)"

text \<open>The number of populated (non-empty) reads fields of a sample record.\<close>

definition populated_reads :: "sample_record \<Rightarrow> nat" where
  "populated_reads record =
     length (filter (\<lambda>field. case record field of None \<Rightarrow> False | Some v \<Rightarrow> v \<noteq> [])
       [''reads'', ''reads2''])"


text \<open>A directory or mapper name without braces holds no replacement field.\<close>

definition brace_free :: "string \<Rightarrow> bool" where
  "brace_free s = (CHR ''{'' \<notin> set s \<and> CHR ''}'' \<notin> set s)"

text \<open>The directory part that \<open>os.path.join\<close> puts before a relative component.\<close>

definition slash_ended :: "string \<Rightarrow> string" where
  "slash_ended path = (if path = [] \<or> last path = CHR ''/'' then path else path @ ''/'')"

text \<open>
  A file counts as changed when it was absent from the file system before the run or its
  time afterwards differs from the one before.
\<close>

definition changed :: "'t filesystem \<Rightarrow> 't filesystem \<Rightarrow> string \<Rightarrow> bool" where
  "changed before after name = (before name = None \<or> after name \<noteq> before name)"

section \<open>Properties of \<open>lookup\<close>\<close>

lemma select_records_missing:
  "line \<in> set sheet \<Longrightarrow> line column = None \<Longrightarrow>
   select_records test column sheet = Inl (KeyError column)"
proof (induction sheet)
  case Nil
  then show ?case by simp
next
  case (Cons a sheet)
  show ?case
  proof (cases "a column")
    case None
    then show ?thesis by (simp add: getitem_def)
  next
    case (Some v)
    with Cons have "select_records test column sheet = Inl (KeyError column)" by auto
    with Some show ?thesis by (simp add: getitem_def)
  qed
qed

lemma select_records_present:
  "\<forall>line \<in> set sheet. column \<in> dom line \<Longrightarrow>
   select_records test column sheet = Inr (filter (\<lambda>line. test (the (line column))) sheet)"
  by (induction sheet) (auto simp: getitem_def split: option.splits sum.splits)

lemma comprehension_getitem:
  "\<forall>k \<in> set ks. k \<in> dom d \<Longrightarrow> comprehension (getitem d) ks = Inr (map (\<lambda>k. the (d k)) ks)"
  by (induction ks) (auto simp: getitem_def split: option.splits sum.splits)

lemma record_fields_present:
  "\<forall>record \<in> set records. \<forall>field \<in> set fs. field \<in> dom record \<Longrightarrow>
   record_fields records fs =
     Inr (concat (map (\<lambda>record. map (\<lambda>field. the (record field)) fs) records))"
  by (induction records) (auto simp: comprehension_getitem split: sum.splits)

lemma record_fields_no_fields: "record_fields records [] = Inr []"
  by (induction records) auto

lemma lookup_select:
  "lookup sheet column p fs =
     (case select_records (matches p) column sheet of
        Inl e \<Rightarrow> Inl e
      | Inr rs \<Rightarrow> record_fields rs fs)"
proof (cases p)
  case (Function f)
  have "matches (Function f) = f" by (rule ext) (simp add: matches_def)
  with Function show ?thesis by (simp add: lookup_def)
next
  case (Literal v)
  have "matches (Literal v) = (\<lambda>x. x = v)" by (rule ext) (simp add: matches_def)
  with Literal show ?thesis by (simp add: lookup_def)
qed

text \<open>
  Claim C5, as stated, at the empty sample sheet: the column \<open>group\<close> exists on no
  record, and \<open>lookup\<close> returns the empty list instead of failing.
\<close>

theorem lookup_missing_column_counterexample:
  "set ([] :: sample_sheet) = {} \<and> lookup [] ''group'' (Literal ''x'') [''name''] = Inr []"
  by (simp add: lookup_def)

text \<open>
  Claim C5, amended: when the sample sheet has at least one record and the column exists
  on none of its records, \<open>lookup\<close> fails for every predicate and every list of
  fields; the failure is the \<open>KeyError\<close> of the column.
\<close>

theorem lookup_missing_column:
  assumes "SAMPLE_SHEET \<noteq> []" and "\<forall>line \<in> set SAMPLE_SHEET. column \<notin> dom line"
  shows "lookup SAMPLE_SHEET column predicate fs = Inl (KeyError column)"
proof -
  from assms obtain line where "line \<in> set SAMPLE_SHEET" "line column = None"
    by (cases SAMPLE_SHEET) auto
  then have "select_records (matches predicate) column SAMPLE_SHEET = Inl (KeyError column)"
    by (rule select_records_missing)
  then show ?thesis by (simp add: lookup_select)
qed

theorem lookup_missing_column_witness:
  "[[''name'' \<mapsto> ''A'']] \<noteq> ([] :: sample_sheet)
   \<and> ''group'' \<notin> dom [''name'' \<mapsto> ''A'']
   \<and> lookup [[''name'' \<mapsto> ''A'']] ''group'' (Literal ''x'') [''name''] = Inl (KeyError ''group'')"
proof -
  have h1: "[[''name'' \<mapsto> ''A'']] \<noteq> ([] :: sample_sheet)" by simp
  have h2: "\<forall>line \<in> set [[''name'' \<mapsto> ''A'']]. ''group'' \<notin> dom line" by simp
  show ?thesis
    using h1 lookup_missing_column [OF h1 h2, of "Literal ''x''" "[''name'']"] by simp
qed

text \<open>
  Claim C6: for a column that every record has and for every predicate (a literal or a
  test function), \<open>lookup\<close> returns the requested field values of the matching
  records, record by record in the order of the sample sheet, provided the matching
  records have the requested fields; and when no record matches it returns the empty
  list, not an error.
\<close>

theorem lookup_existing_column:
  assumes "\<forall>line \<in> set SAMPLE_SHEET. column \<in> dom line"
  shows "((\<forall>record \<in> set (filter (\<lambda>line. matches predicate (the (line column))) SAMPLE_SHEET).
            \<forall>field \<in> set fs. field \<in> dom record) \<longrightarrow>
          lookup SAMPLE_SHEET column predicate fs =
            Inr (concat (map (\<lambda>record. map (\<lambda>field. the (record field)) fs)
                   (filter (\<lambda>line. matches predicate (the (line column))) SAMPLE_SHEET))))
       \<and> (filter (\<lambda>line. matches predicate (the (line column))) SAMPLE_SHEET = [] \<longrightarrow>
          lookup SAMPLE_SHEET column predicate fs = Inr [])"
  using assms by (simp add: lookup_select select_records_present record_fields_present)

theorem lookup_existing_column_witness:
  "lookup [[''name'' \<mapsto> ''A'', ''group'' \<mapsto> ''x''], [''name'' \<mapsto> ''B'', ''group'' \<mapsto> ''y''],
           [''name'' \<mapsto> ''C'', ''group'' \<mapsto> ''x'']] ''group'' (Literal ''x'') [''name'', ''group'']
     = Inr [''A'', ''x'', ''C'', ''x'']
   \<and> lookup [[''name'' \<mapsto> ''A'', ''group'' \<mapsto> ''x''], [''name'' \<mapsto> ''B'', ''group'' \<mapsto> ''y''],
           [''name'' \<mapsto> ''C'', ''group'' \<mapsto> ''x'']] ''group'' (Function (\<lambda>v. v = ''z'')) [''name'', ''group'']
     = Inr []"
proof -
  let ?sheet = "[[''name'' \<mapsto> ''A'', ''group'' \<mapsto> ''x''], [''name'' \<mapsto> ''B'', ''group'' \<mapsto> ''y''],
           [''name'' \<mapsto> ''C'', ''group'' \<mapsto> ''x'']] :: sample_sheet"
  have h: "\<forall>line \<in> set ?sheet. ''group'' \<in> dom line" by simp
  from lookup_existing_column [OF h, of "Literal ''x''" "[''name'', ''group'']"]
  have a: "lookup ?sheet ''group'' (Literal ''x'') [''name'', ''group''] = Inr [''A'', ''x'', ''C'', ''x'']"
    by (simp add: matches_def)
  from lookup_existing_column [OF h, of "Function (\<lambda>v. v = ''z'')" "[''name'', ''group'']"]
  have b: "lookup ?sheet ''group'' (Function (\<lambda>v. v = ''z'')) [''name'', ''group''] = Inr []"
    by (simp add: matches_def)
  from a b show ?thesis by blast
qed

text \<open>
  Claim C10: for a column of the sample sheet (one that every record has) and every
  predicate, \<open>lookup\<close> called without \<open>fields\<close> returns the empty list, whether
  or not records match.
\<close>

theorem lookup_default_empty:
  assumes "\<forall>line \<in> set SAMPLE_SHEET. column \<in> dom line"
  shows "lookup_default SAMPLE_SHEET column predicate = Inr []"
  using assms
  by (simp add: lookup_default_def lookup_select select_records_present record_fields_no_fields)

theorem lookup_default_empty_witness:
  "matches (Literal ''A'') ''A''
   \<and> lookup_default [[''name'' \<mapsto> ''A''], [''name'' \<mapsto> ''B'']] ''name'' (Literal ''A'') = Inr []"
proof -
  have h: "\<forall>line \<in> set [[''name'' \<mapsto> ''A''], [''name'' \<mapsto> ''B'']]. ''name'' \<in> dom line"
    by simp
  have m: "matches (Literal ''A'') ''A''" by (simp add: matches_def)
  show ?thesis using m lookup_default_empty [OF h, of "Literal ''A''"] by simp
qed

section \<open>Single-end and paired-end samples\<close>

text \<open>
  Claim C8: for a record of the sample sheet whose name no other record has, and which
  has the two reads fields, \<open>isSingleEnd\<close> answers \<open>True\<close> (single-end) exactly
  when one of \<open>reads\<close>, \<open>reads2\<close> is populated, \<open>False\<close> (paired-end) exactly
  when both are, and gives no classification (\<open>None\<close>) for any other count.
\<close>

theorem isSingleEnd_classification:
  assumes names: "\<forall>line \<in> set SAMPLE_SHEET. ''name'' \<in> dom line"
    and unique: "filter (\<lambda>line. line ''name'' = Some sample) SAMPLE_SHEET = [record]"
    and reads: "''reads'' \<in> dom record" "''reads2'' \<in> dom record"
  shows "(isSingleEnd SAMPLE_SHEET (sample # wildcards) = Inr (Some True) \<longleftrightarrow> populated_reads record = 1)
       \<and> (isSingleEnd SAMPLE_SHEET (sample # wildcards) = Inr (Some False) \<longleftrightarrow> populated_reads record = 2)
       \<and> (isSingleEnd SAMPLE_SHEET (sample # wildcards) = Inr None \<longleftrightarrow>
            populated_reads record \<noteq> 1 \<and> populated_reads record \<noteq> 2)"
proof -
  have sel: "filter (\<lambda>line. matches (Literal sample) (the (line ''name''))) SAMPLE_SHEET = [record]"
  proof -
    have "filter (\<lambda>line. matches (Literal sample) (the (line ''name''))) SAMPLE_SHEET
        = filter (\<lambda>line. line ''name'' = Some sample) SAMPLE_SHEET"
      using names by (intro filter_cong) (auto simp: matches_def)
    with unique show ?thesis by simp
  qed
  from reads obtain r1 r2 where r: "record ''reads'' = Some r1" "record ''reads2'' = Some r2"
    by auto
  have "lookup SAMPLE_SHEET ''name'' (Literal sample) [''reads'', ''reads2''] = Inr [r1, r2]"
    using names sel r
    by (simp add: lookup_select select_records_present getitem_def)
  moreover have "populated_reads record = length (filter (\<lambda>f. f \<noteq> []) [r1, r2])"
    using r by (simp add: populated_reads_def)
  ultimately show ?thesis
    by (simp add: isSingleEnd_def Let_def)
qed

theorem isSingleEnd_classification_witness:
  "isSingleEnd [[''name'' \<mapsto> ''A'', ''reads'' \<mapsto> ''a_1.fq'', ''reads2'' \<mapsto> ''a_2.fq''],
                [''name'' \<mapsto> ''B'', ''reads'' \<mapsto> ''b.fq'', ''reads2'' \<mapsto> []]] [''B'']
     = Inr (Some True)
   \<and> populated_reads [''name'' \<mapsto> ''B'', ''reads'' \<mapsto> ''b.fq'', ''reads2'' \<mapsto> []] = 1"
proof -
  let ?a = "[''name'' \<mapsto> ''A'', ''reads'' \<mapsto> ''a_1.fq'', ''reads2'' \<mapsto> ''a_2.fq''] :: sample_record"
  let ?b = "[''name'' \<mapsto> ''B'', ''reads'' \<mapsto> ''b.fq'', ''reads2'' \<mapsto> []] :: sample_record"
  have names: "\<forall>line \<in> set [?a, ?b]. ''name'' \<in> dom line" by simp
  have unique: "filter (\<lambda>line. line ''name'' = Some ''B'') [?a, ?b] = [?b]" by simp
  have reads: "''reads'' \<in> dom ?b" "''reads2'' \<in> dom ?b" by simp_all
  have count: "populated_reads ?b = 1" by (simp add: populated_reads_def)
  from isSingleEnd_classification [OF names unique reads, of "[]"] count
  show ?thesis by blast
qed

section \<open>The change report\<close>

lemma onstart_loop_lookup:
  "onstart_loop fs names e n =
     (if n \<in> set names then (case fs n of Some t \<Rightarrow> Some t | None \<Rightarrow> e n) else e n)"
  by (induction names arbitrary: e) (auto split: option.splits)

lemma onstart_snapshot:
  "onstart names fs Map.empty n = (if n \<in> set names then fs n else None)"
  by (cases "names = []") (auto simp: onstart_def onstart_loop_lookup split: option.splits)

lemma generated_loop_filter:
  "\<forall>n \<in> set names. n \<in> dom e \<longrightarrow> n \<in> dom fs \<Longrightarrow>
   generated_loop fs e names acc = Inr (acc @ filter (\<lambda>n. e n = None \<or> fs n \<noteq> e n) names)"
  by (induction names arbitrary: acc) (auto split: option.splits)

text \<open>
  Claim C3: \<open>onstart\<close> runs on the file system before the execution, starting from
  the empty dictionary, and \<open>onsuccess\<close> on the file system after a successful run, in
  which every output file that existed before still exists (a successful run leaves all
  of them present). Then the collected list \<open>generated\<close> is exactly the output files
  that were absent before or whose time differs from the recorded one, in the order of
  \<open>OUTPUT_FILES\<close>; the printed report is a header followed by one line for each of
  them in that order, and nothing when there is none.
\<close>

theorem change_report:
  assumes "\<forall>name \<in> set output_files. name \<in> dom before \<longrightarrow> name \<in> dom after"
  shows "generated_loop after (onstart output_files before Map.empty) output_files []
           = Inr (filter (changed before after) output_files)
       \<and> onsuccess output_files after (onstart output_files before Map.empty)
           = Inr (if filter (changed before after) output_files = [] then []
                  else ''The following files have been generated:'' #
                       map (\<lambda>name. ''  - '' @ name) (filter (changed before after) output_files))"
proof -
  let ?e = "onstart output_files before Map.empty"
  have e: "?e n = before n" if "n \<in> set output_files" for n
    using that by (simp add: onstart_snapshot)
  have "\<forall>n \<in> set output_files. n \<in> dom ?e \<longrightarrow> n \<in> dom after"
    using assms e by (auto simp: dom_def)
  then have "generated_loop after ?e output_files []
      = Inr ([] @ filter (\<lambda>n. ?e n = None \<or> after n \<noteq> ?e n) output_files)"
    by (rule generated_loop_filter)
  moreover have "filter (\<lambda>n. ?e n = None \<or> after n \<noteq> ?e n) output_files
      = filter (changed before after) output_files"
    by (rule filter_cong) (simp_all add: e changed_def)
  ultimately have g: "generated_loop after ?e output_files []
      = Inr (filter (changed before after) output_files)"
    by simp
  then show ?thesis
    by (cases "output_files = []") (simp_all add: onsuccess_def)
qed

theorem change_report_witness:
  "onsuccess [''a'', ''b'', ''c'', ''d''] [''a'' \<mapsto> 1, ''b'' \<mapsto> 5, ''c'' \<mapsto> 7, ''d'' \<mapsto> 2]
     (onstart [''a'', ''b'', ''c'', ''d''] [''b'' \<mapsto> 5, ''c'' \<mapsto> (6::nat)] Map.empty)
   = Inr [''The following files have been generated:'', ''  - a'', ''  - c'', ''  - d'']"
proof -
  let ?before = "[''b'' \<mapsto> 5, ''c'' \<mapsto> (6::nat)]"
  let ?after = "[''a'' \<mapsto> 1, ''b'' \<mapsto> 5, ''c'' \<mapsto> 7, ''d'' \<mapsto> (2::nat)]"
  have h: "\<forall>name \<in> set [''a'', ''b'', ''c'', ''d'']. name \<in> dom ?before \<longrightarrow> name \<in> dom ?after"
    by simp
  have "filter (changed ?before ?after) [''a'', ''b'', ''c'', ''d''] = [''a'', ''c'', ''d'']"
    by (simp add: changed_def)
  with change_report [OF h] show ?thesis by simp
qed

section \<open>Patterns without stray braces\<close>

text \<open>
  A literal part of a pattern without braces is copied, and the one replacement field
  of a workflow pattern is replaced by the value: for directory names without braces
  every expansion of the workflow succeeds.
\<close>

lemma str_format_literal:
  "brace_free d \<Longrightarrow>
   str_format py name v (d @ r) =
     (case str_format py name v r of Inl e \<Rightarrow> Inl e | Inr x \<Rightarrow> Inr (d @ x))"
  by (induction d) (auto simp: brace_free_def split: sum.splits)

lemma str_format_plain: "brace_free s \<Longrightarrow> str_format py name v s = Inr s"
  using str_format_literal [of s py name v "[]"] by simp

lemma str_format_sample:
  "brace_free ext \<Longrightarrow> str_format py ''sample'' v (''{sample}'' @ ext) = Inr (v @ ext)"
  by (simp add: str_format_plain)

lemma str_format_analysis:
  "brace_free ext \<Longrightarrow> str_format py ''analysis'' v (''{analysis}'' @ ext) = Inr (v @ ext)"
  by (simp add: str_format_plain)

lemma comprehension_error:
  "comprehension f xs = Inl e \<Longrightarrow> \<exists>x \<in> set xs. f x = Inl e"
  by (induction xs arbitrary: e) (auto split: sum.splits)

lemma comprehension_values:
  "\<forall>x \<in> set xs. f x = Inr (g x) \<Longrightarrow> comprehension f xs = Inr (map g xs)"
  by (induction xs) auto

lemma expand_sample:
  assumes "brace_free d" "brace_free ext"
  shows "expand py (d @ ''{sample}'' @ ext) ''sample'' vs = Inr (map (\<lambda>v. d @ v @ ext) vs)"
  unfolding expand_def
  by (rule comprehension_values) (simp add: str_format_literal assms str_format_plain)

lemma expand_analysis:
  assumes "brace_free d" "brace_free ext"
  shows "expand py (d @ ''{analysis}'' @ ext) ''analysis'' vs = Inr (map (\<lambda>v. d @ v @ ext) vs)"
  unfolding expand_def
  by (rule comprehension_values) (simp add: str_format_literal assms str_format_plain)

lemma brace_free_append [simp]: "brace_free (a @ b) = (brace_free a \<and> brace_free b)"
  by (auto simp: brace_free_def)

lemma brace_free_join_component:
  "brace_free p \<Longrightarrow> brace_free b \<Longrightarrow> brace_free (join_component p b)"
  by (simp add: join_component_def brace_free_def)

lemma brace_free_os_path_join:
  "brace_free a \<Longrightarrow> \<forall>p \<in> set ps. brace_free p \<Longrightarrow> brace_free (os_path_join a ps)"
  unfolding os_path_join_def
  by (induction ps arbitrary: a) (simp_all add: brace_free_join_component)

lemma brace_free_slash_ended: "brace_free p \<Longrightarrow> brace_free (slash_ended p)"
  by (simp add: slash_ended_def brace_free_def)

lemma join_component_relative:
  "b \<noteq> [] \<Longrightarrow> hd b \<noteq> CHR ''/'' \<Longrightarrow> join_component p b = slash_ended p @ b"
  by (cases b) (simp_all add: join_component_def slash_ended_def)

lemma os_path_join_snoc:
  "os_path_join a (ps @ [b]) = join_component (os_path_join a ps) b"
  by (simp add: os_path_join_def)

lemma os_path_join_file:
  assumes "b \<noteq> []" "hd b \<noteq> CHR ''/''"
  shows "os_path_join a (ps @ [b]) = slash_ended (os_path_join a ps) @ b"
  by (simp only: os_path_join_snoc join_component_relative [OF assms])

lemma os_path_join_sample_directory:
  assumes "b \<noteq> []" "hd b \<noteq> CHR ''/''"
  shows "os_path_join a [''{sample}'', b] = slash_ended a @ ''{sample}'' @ ''/'' @ b"
proof -
  have "os_path_join a [''{sample}'', b] = join_component (join_component a ''{sample}'') b"
    by (simp add: os_path_join_def)
  also have "join_component a ''{sample}'' = slash_ended a @ ''{sample}''"
    by (rule join_component_relative) simp_all
  also have "join_component (slash_ended a @ ''{sample}'') b
      = slash_ended (slash_ended a @ ''{sample}'') @ b"
    using assms by (rule join_component_relative)
  also have "slash_ended (slash_ended a @ ''{sample}'') = slash_ended a @ ''{sample}'' @ ''/''"
    by (simp add: slash_ended_def)
  finally show ?thesis by simp
qed

lemma expand_sample_file:
  assumes "brace_free a" "\<forall>p \<in> set ps. brace_free p" "brace_free ext"
  shows "expand py (os_path_join a (ps @ [''{sample}'' @ ext])) ''sample'' vs
       = Inr (map (\<lambda>v. slash_ended (os_path_join a ps) @ v @ ext) vs)"
proof -
  have "os_path_join a (ps @ [''{sample}'' @ ext])
      = slash_ended (os_path_join a ps) @ ''{sample}'' @ ext"
    by (rule os_path_join_file) simp_all
  moreover have "brace_free (slash_ended (os_path_join a ps))"
    using assms(1,2) by (intro brace_free_slash_ended brace_free_os_path_join)
  ultimately show ?thesis using assms(3) by (simp only: expand_sample)
qed

lemma expand_analysis_file:
  assumes "brace_free a" "\<forall>p \<in> set ps. brace_free p" "brace_free ext"
  shows "expand py (os_path_join a (ps @ [''{analysis}'' @ ext])) ''analysis'' vs
       = Inr (map (\<lambda>v. slash_ended (os_path_join a ps) @ v @ ext) vs)"
proof -
  have "os_path_join a (ps @ [''{analysis}'' @ ext])
      = slash_ended (os_path_join a ps) @ ''{analysis}'' @ ext"
    by (rule os_path_join_file) simp_all
  moreover have "brace_free (slash_ended (os_path_join a ps))"
    using assms(1,2) by (intro brace_free_slash_ended brace_free_os_path_join)
  ultimately show ?thesis using assms(3) by (simp only: expand_analysis)
qed

lemma expand_sample_directory:
  assumes "brace_free a" "brace_free b" "b \<noteq> []" "hd b \<noteq> CHR ''/''"
  shows "expand py (os_path_join a [''{sample}'', b]) ''sample'' vs
       = Inr (map (\<lambda>v. slash_ended a @ v @ ''/'' @ b) vs)"
proof -
  have "brace_free (''/'' @ b)" using assms(2) by (simp add: brace_free_def)
  with assms(1) show ?thesis
    by (simp only: os_path_join_sample_directory [OF assms(3,4)] expand_sample
        brace_free_slash_ended)
qed

lemma brace_free_subdirectory:
  "brace_free a \<Longrightarrow> brace_free b \<Longrightarrow> brace_free (os_path_join a [b])"
  by (rule brace_free_os_path_join) simp_all

lemma brace_free_directories:
  assumes "brace_free (OUTPUT_DIR config)"
  shows "brace_free (BIGWIG_DIR config)" "brace_free (MAPPED_READS_DIR config)"
    "brace_free (SALMON_DIR config)"
proof -
  show "brace_free (BIGWIG_DIR config)"
    unfolding BIGWIG_DIR_def
    by (rule brace_free_subdirectory [OF assms]) (simp add: brace_free_def)
  show "brace_free (MAPPED_READS_DIR config)"
    unfolding MAPPED_READS_DIR_def
    by (rule brace_free_subdirectory [OF assms]) (simp add: brace_free_def)
  show "brace_free (SALMON_DIR config)"
    unfolding SALMON_DIR_def
    by (rule brace_free_subdirectory [OF assms]) (simp add: brace_free_def)
qed

lemma bamCoverage_output:
  assumes "coverage_tool config = ''bamCoverage''"
    and "brace_free (OUTPUT_DIR config)" "brace_free (MAPPER config)"
  shows "BIGWIG_OUTPUT py config samples =
     Inr (map (\<lambda>v. slash_ended (os_path_join (BIGWIG_DIR config) [MAPPER config, ''bamCoverage''])
                 @ v @ ''.forward.bw'') samples
        @ map (\<lambda>v. slash_ended (os_path_join (BIGWIG_DIR config) [MAPPER config, ''bamCoverage''])
                 @ v @ ''.reverse.bw'') samples
        @ map (\<lambda>v. slash_ended (os_path_join (BIGWIG_DIR config) [MAPPER config, ''bamCoverage''])
                 @ v @ ''.bw'') samples)"
proof -
  have d: "brace_free (BIGWIG_DIR config)"
    and ps: "\<forall>p \<in> set [MAPPER config, ''bamCoverage'']. brace_free p"
    using assms(2,3) by (simp_all add: brace_free_directories) (simp add: brace_free_def)
  have e: "brace_free ''.forward.bw''" "brace_free ''.reverse.bw''" "brace_free ''.bw''"
    by (simp_all add: brace_free_def)
  from expand_sample_file [OF d ps e(1), of py samples]
    expand_sample_file [OF d ps e(2), of py samples]
    expand_sample_file [OF d ps e(3), of py samples]
  show ?thesis using assms(1) by (simp add: BIGWIG_OUTPUT_def)
qed

lemma megadepth_output:
  assumes "coverage_tool config = ''megadepth''"
    and "brace_free (OUTPUT_DIR config)" "brace_free (MAPPER config)"
  shows "BIGWIG_OUTPUT py config samples =
     Inr (map (\<lambda>v. slash_ended (os_path_join (BIGWIG_DIR config) [MAPPER config, ''megadepth''])
                 @ v @ ''.all.bw'') samples)"
proof -
  have d: "brace_free (BIGWIG_DIR config)"
    and ps: "\<forall>p \<in> set [MAPPER config, ''megadepth'']. brace_free p"
    using assms(2,3) by (simp_all add: brace_free_directories) (simp add: brace_free_def)
  have e: "brace_free ''.all.bw''" by (simp add: brace_free_def)
  from expand_sample_file [OF d ps e, of py samples]
  show ?thesis using assms(1) by (simp add: BIGWIG_OUTPUT_def)
qed

lemma COLLATED_OUTPUT_exists:
  assumes "brace_free (OUTPUT_DIR config)" "brace_free (MAPPER config)"
  shows "\<exists>col. COLLATED_OUTPUT py config = Inr col"
proof -
  have ps: "\<forall>p \<in> set [''report'', MAPPER config]. brace_free p"
    "\<forall>p \<in> set [''report'', ''salmon'']. brace_free p"
    using assms(2) by (simp_all add: brace_free_def)
  have e: "brace_free ''.deseq.report.html''"
    "brace_free ''.salmon.transcripts.deseq.report.html''"
    "brace_free ''.salmon.genes.deseq.report.html''"
    by (simp_all add: brace_free_def)
  from expand_analysis_file [OF assms(1) ps(1) e(1), of py "DE_ANALYSIS_LIST config"]
    expand_analysis_file [OF assms(1) ps(2) e(2), of py "DE_ANALYSIS_LIST config"]
    expand_analysis_file [OF assms(1) ps(2) e(3), of py "DE_ANALYSIS_LIST config"]
  show ?thesis by (simp add: COLLATED_OUTPUT_def Let_def)
qed

lemma targets_exists:
  assumes "brace_free (OUTPUT_DIR config)"
  shows "\<exists>tgs. targets py config samples bigwig col = Inr tgs"
proof -
  have d: "brace_free (MAPPED_READS_DIR config)" "brace_free (SALMON_DIR config)"
    using assms by (simp_all add: brace_free_directories)
  have ps: "\<forall>p \<in> set [''star'']. brace_free p" "\<forall>p \<in> set [''hisat2'']. brace_free p"
    by (simp_all add: brace_free_def)
  have e: "brace_free ''_Aligned.sortedByCoord.out.bam''"
    "brace_free ''quant.sf''" "brace_free ''quant.genes.sf''"
    by (simp_all add: brace_free_def)
  from expand_sample_file [OF d(1) ps(1) e(1), of py samples]
  have 1: "\<exists>fs. expand py (os_path_join (MAPPED_READS_DIR config)
      [''star'', ''{sample}_Aligned.sortedByCoord.out.bam'']) ''sample'' samples = Inr fs"
    by simp
  from expand_sample_file [OF d(1) ps(2) e(1), of py samples]
  have 2: "\<exists>fs. expand py (os_path_join (MAPPED_READS_DIR config)
      [''hisat2'', ''{sample}_Aligned.sortedByCoord.out.bam'']) ''sample'' samples = Inr fs"
    by simp
  from expand_sample_directory [OF d(2) e(2), of py samples]
  have 3: "\<exists>fs. expand py (os_path_join (SALMON_DIR config) [''{sample}'', ''quant.sf''])
      ''sample'' samples = Inr fs"
    by simp
  from expand_sample_directory [OF d(2) e(3), of py samples]
  have 4: "\<exists>fs. expand py (os_path_join (SALMON_DIR config) [''{sample}'', ''quant.genes.sf''])
      ''sample'' samples = Inr fs"
    by simp
  from 1 2 3 4 show ?thesis
    unfolding targets_def by (elim exE) (simp only: sum.case, blast)
qed

lemma str_format_not_exit:
  "str_format py name v p = Inl e \<Longrightarrow> e \<noteq> SystemExit msg"
proof (induction py name v p arbitrary: e rule: str_format.induct)
  case (1 py name v)
  then show ?case by simp
next
  case (2 py name v c cs)
  show ?case
  proof
    assume "e = SystemExit msg"
    with "2.prems" have p: "str_format py name v (c # cs) = Inl (SystemExit msg)" by simp
    from p "2.IH" show False
      by (simp split: if_splits sum.splits option.splits)
  qed
qed

lemma expand_not_exit: "expand py pattern name vs \<noteq> Inl (SystemExit msg)"
proof
  assume "expand py pattern name vs = Inl (SystemExit msg)"
  then obtain v where "str_format py name v pattern = Inl (SystemExit msg)"
    unfolding expand_def by (blast dest: comprehension_error)
  then show False by (blast dest: str_format_not_exit)
qed

lemma BIGWIG_OUTPUT_not_exit:
  "coverage_tool config \<in> {''bamCoverage'', ''megadepth''} \<Longrightarrow>
   BIGWIG_OUTPUT py config samples \<noteq> Inl (SystemExit msg)"
  by (auto simp: BIGWIG_OUTPUT_def expand_not_exit split: sum.splits)

lemma COLLATED_OUTPUT_not_exit: "COLLATED_OUTPUT py config \<noteq> Inl (SystemExit msg)"
  by (auto simp: COLLATED_OUTPUT_def Let_def expand_not_exit split: sum.splits)

lemma targets_not_exit: "targets py config samples bigwig col \<noteq> Inl (SystemExit msg)"
  unfolding targets_def
  by (auto simp: expand_not_exit split: sum.splits)

section \<open>The target table and the required files\<close>

lemma SAMPLES_present:
  "\<forall>line \<in> set sheet. ''name'' \<in> dom line \<Longrightarrow>
   SAMPLES sheet = Inr (map (\<lambda>line. the (line ''name'')) sheet)"
  unfolding SAMPLES_def
  by (induction sheet) (auto simp: getitem_def split: option.splits sum.splits)

lemma SAMPLES_error: "SAMPLES sheet = Inl e \<Longrightarrow> e = KeyError ''name''"
  unfolding SAMPLES_def
  by (drule comprehension_error) (auto simp: getitem_def split: option.splits)

lemma target_files_error: "target_files tgs name = Inl e \<Longrightarrow> e = KeyError name"
  by (auto simp: target_files_def getitem_def split: option.splits)

lemma target_files_present:
  "name \<in> dom (map_of tgs) \<Longrightarrow> target_files tgs name = Inr (files (the (map_of tgs name)))"
  by (auto simp: target_files_def getitem_def split: option.splits)

lemma BIGWIG_OUTPUT_invalid:
  "coverage_tool config \<notin> {''bamCoverage'', ''megadepth''} \<Longrightarrow>
   BIGWIG_OUTPUT py config samples = Inl (SystemExit coverage_error)"
  by (simp add: BIGWIG_OUTPUT_def)

lemma BIGWIG_OUTPUT_valid:
  assumes "coverage_tool config \<in> {''bamCoverage'', ''megadepth''}"
    and "brace_free (OUTPUT_DIR config)" "brace_free (MAPPER config)"
  shows "\<exists>fs. BIGWIG_OUTPUT py config samples = Inr fs"
  using assms bamCoverage_output [of config py samples] megadepth_output [of config py samples]
  by auto

lemma help_files:
  "targets py config samples bigwig col = Inr tgs \<Longrightarrow> target_files tgs ''help'' = Inr []"
  unfolding targets_def
  by (auto simp: target_files_def getitem_def split: sum.splits)

lemma multiqc_files:
  "targets py config samples bigwig col = Inr tgs \<Longrightarrow>
   target_files tgs ''multiqc'' = Inr [os_path_join (MULTIQC_DIR config) [''multiqc_report.html'']]"
  unfolding targets_def
  by (auto simp: target_files_def getitem_def split: sum.splits)

lemma genome_coverage_files:
  "targets py config samples bigwig col = Inr tgs \<Longrightarrow>
   target_files tgs ''genome_coverage'' = Inr bigwig"
  unfolding targets_def
  by (auto simp: target_files_def getitem_def split: sum.splits)

lemma targets_dom:
  "targets py config samples bigwig col = Inr tgs \<Longrightarrow>
   dom (map_of tgs) =
     {''help'', ''final-report'', ''deseq_report_star'', ''deseq_report_hisat2'',
      ''deseq_report_salmon_transcripts'', ''deseq_report_salmon_genes'', ''star_map'',
      ''star_counts'', ''hisat2_map'', ''hisat2_counts'', ''genome_coverage'', ''salmon_index'',
      ''salmon_quant'', ''salmon_counts'', ''multiqc''}"
  unfolding targets_def dom_map_of_conv_image_fst
  by (auto split: sum.splits)

lemma workflow_targets_steps:
  "workflow_targets py config sheet = Inr tgs \<Longrightarrow>
   \<exists>samples bigwig col. SAMPLES sheet = Inr samples
      \<and> BIGWIG_OUTPUT py config samples = Inr bigwig
      \<and> COLLATED_OUTPUT py config = Inr col
      \<and> targets py config samples bigwig col = Inr tgs"
  by (auto simp: workflow_targets_def split: sum.splits)

lemma workflow_targets_exists:
  assumes "SAMPLES sheet = Inr samples" "BIGWIG_OUTPUT py config samples = Inr bigwig"
    and "brace_free (OUTPUT_DIR config)" "brace_free (MAPPER config)"
  shows "\<exists>col tgs. workflow_targets py config sheet = Inr tgs
      \<and> targets py config samples bigwig col = Inr tgs"
proof -
  from COLLATED_OUTPUT_exists [OF assms(3,4)] obtain col
    where col: "COLLATED_OUTPUT py config = Inr col" by blast
  from targets_exists [OF assms(3)] obtain tgs
    where tgs: "targets py config samples bigwig col = Inr tgs" by blast
  from assms(1,2) col tgs have "workflow_targets py config sheet = Inr tgs"
    by (simp add: workflow_targets_def)
  with tgs show ?thesis by blast
qed

lemma workflow_targets_not_exit:
  assumes "coverage_tool config \<in> {''bamCoverage'', ''megadepth''}"
  shows "workflow_targets py config sheet \<noteq> Inl (SystemExit msg)"
  using assms BIGWIG_OUTPUT_not_exit [OF assms] COLLATED_OUTPUT_not_exit targets_not_exit
  by (auto simp: workflow_targets_def split: sum.splits dest: SAMPLES_error)

lemma coverage_error_names:
  "sublist ''coverage->tool'' coverage_error
   \<and> sublist ''megadepth'' coverage_error
   \<and> sublist ''bamCoverage'' coverage_error"
  by code_simp

text \<open>
  Claim C2: a coverage tool other than \<open>bamCoverage\<close> and \<open>megadepth\<close> ends the
  workflow with \<open>sys.exit\<close>; the message names the option \<open>coverage->tool\<close> and
  the two allowed values. The exit happens in the coverage branch, before the target
  table and \<open>OUTPUT_FILES\<close> (the inputs of the first rule) exist: neither is ever
  produced, and when the sample names can be read the failure is this exit. With one of
  the two allowed values neither the coverage branch nor the workflow ever exits this
  way, and for an output directory and a mapper named without braces the coverage branch
  yields a file list.
\<close>

theorem coverage_tool_validation:
  "sublist ''coverage->tool'' coverage_error
   \<and> sublist ''megadepth'' coverage_error
   \<and> sublist ''bamCoverage'' coverage_error
   \<and> (coverage_tool config \<notin> {''bamCoverage'', ''megadepth''} \<longrightarrow>
      BIGWIG_OUTPUT py config samples = Inl (SystemExit coverage_error)
      \<and> (\<exists>e. workflow_targets py config SAMPLE_SHEET = Inl e)
      \<and> (\<exists>e. OUTPUT_FILES py config SAMPLE_SHEET = Inl e)
      \<and> ((\<forall>line \<in> set SAMPLE_SHEET. ''name'' \<in> dom line) \<longrightarrow>
           OUTPUT_FILES py config SAMPLE_SHEET = Inl (SystemExit coverage_error)))
   \<and> (coverage_tool config \<in> {''bamCoverage'', ''megadepth''} \<longrightarrow>
      (\<forall>msg. BIGWIG_OUTPUT py config samples \<noteq> Inl (SystemExit msg))
      \<and> (brace_free (OUTPUT_DIR config) \<and> brace_free (MAPPER config) \<longrightarrow>
           (\<exists>fs. BIGWIG_OUTPUT py config samples = Inr fs))
      \<and> (\<forall>msg. OUTPUT_FILES py config SAMPLE_SHEET \<noteq> Inl (SystemExit msg)))"
proof -
  have invalid: "BIGWIG_OUTPUT py config samples = Inl (SystemExit coverage_error)
      \<and> (\<exists>e. workflow_targets py config SAMPLE_SHEET = Inl e)
      \<and> (\<exists>e. OUTPUT_FILES py config SAMPLE_SHEET = Inl e)
      \<and> ((\<forall>line \<in> set SAMPLE_SHEET. ''name'' \<in> dom line) \<longrightarrow>
           OUTPUT_FILES py config SAMPLE_SHEET = Inl (SystemExit coverage_error))"
    if bad: "coverage_tool config \<notin> {''bamCoverage'', ''megadepth''}"
  proof (intro conjI impI)
    show "BIGWIG_OUTPUT py config samples = Inl (SystemExit coverage_error)"
      using bad by (rule BIGWIG_OUTPUT_invalid)
    show wt: "\<exists>e. workflow_targets py config SAMPLE_SHEET = Inl e"
      using bad by (auto simp: workflow_targets_def BIGWIG_OUTPUT_invalid split: sum.splits)
    then show "\<exists>e. OUTPUT_FILES py config SAMPLE_SHEET = Inl e"
      by (auto simp: OUTPUT_FILES_def)
    assume "\<forall>line \<in> set SAMPLE_SHEET. ''name'' \<in> dom line"
    then show "OUTPUT_FILES py config SAMPLE_SHEET = Inl (SystemExit coverage_error)"
      using bad
      by (simp add: OUTPUT_FILES_def workflow_targets_def SAMPLES_present BIGWIG_OUTPUT_invalid)
  qed
  have valid: "(\<forall>msg. BIGWIG_OUTPUT py config samples \<noteq> Inl (SystemExit msg))
      \<and> (brace_free (OUTPUT_DIR config) \<and> brace_free (MAPPER config) \<longrightarrow>
           (\<exists>fs. BIGWIG_OUTPUT py config samples = Inr fs))
      \<and> (\<forall>msg. OUTPUT_FILES py config SAMPLE_SHEET \<noteq> Inl (SystemExit msg))"
    if ok: "coverage_tool config \<in> {''bamCoverage'', ''megadepth''}"
  proof (intro conjI impI allI)
    show "BIGWIG_OUTPUT py config samples \<noteq> Inl (SystemExit msg)" for msg
      using ok by (rule BIGWIG_OUTPUT_not_exit)
    show "\<exists>fs. BIGWIG_OUTPUT py config samples = Inr fs"
      if "brace_free (OUTPUT_DIR config) \<and> brace_free (MAPPER config)"
      using ok that by (blast intro: BIGWIG_OUTPUT_valid)
    show "OUTPUT_FILES py config SAMPLE_SHEET \<noteq> Inl (SystemExit msg)" for msg
    proof
      assume e: "OUTPUT_FILES py config SAMPLE_SHEET = Inl (SystemExit msg)"
      show False
      proof (cases "workflow_targets py config SAMPLE_SHEET")
        case (Inl e')
        with e have "workflow_targets py config SAMPLE_SHEET = Inl (SystemExit msg)"
          by (simp add: OUTPUT_FILES_def)
        with workflow_targets_not_exit [OF ok] show False by blast
      next
        case (Inr tgs)
        with e have "comprehension (target_files tgs) (selected_targets config)
            = Inl (SystemExit msg)"
          by (simp add: OUTPUT_FILES_def split: sum.splits)
        then obtain name where "target_files tgs name = Inl (SystemExit msg)"
          using comprehension_error by blast
        then show False by (auto dest: target_files_error)
      qed
    qed
  qed
  from invalid valid coverage_error_names show ?thesis by blast
qed

theorem coverage_tool_validation_witness:
  "OUTPUT_FILES (\<lambda>name v rest. None)
       \<lparr>OUTPUT_DIR = ''out'', MAPPER = ''star'', coverage_tool = ''deeptools'',
        DE_ANALYSIS_LIST = [], execution_target = []\<rparr> [[''name'' \<mapsto> ''A'']]
     = Inl (SystemExit coverage_error)
   \<and> (\<exists>fs. BIGWIG_OUTPUT (\<lambda>name v rest. None)
       \<lparr>OUTPUT_DIR = ''out'', MAPPER = ''star'', coverage_tool = ''megadepth'',
        DE_ANALYSIS_LIST = [], execution_target = []\<rparr> [''A''] = Inr fs)"
proof -
  let ?py = "(\<lambda>name v rest. None) :: formatter"
  let ?bad = "\<lparr>OUTPUT_DIR = ''out'', MAPPER = ''star'', coverage_tool = ''deeptools'',
       DE_ANALYSIS_LIST = [], execution_target = []\<rparr>"
  let ?good = "\<lparr>OUTPUT_DIR = ''out'', MAPPER = ''star'', coverage_tool = ''megadepth'',
       DE_ANALYSIS_LIST = [], execution_target = []\<rparr>"
  have b: "coverage_tool ?bad \<notin> {''bamCoverage'', ''megadepth''}" by simp
  have n: "\<forall>line \<in> set [[''name'' \<mapsto> ''A'']]. ''name'' \<in> dom line" by simp
  have g: "coverage_tool ?good \<in> {''bamCoverage'', ''megadepth''}" by simp
  have d: "brace_free (OUTPUT_DIR ?good) \<and> brace_free (MAPPER ?good)"
    by (simp add: brace_free_def)
  from coverage_tool_validation [of ?bad ?py "[''A'']" "[[''name'' \<mapsto> ''A'']]"] b n
  have 1: "OUTPUT_FILES ?py ?bad [[''name'' \<mapsto> ''A'']] = Inl (SystemExit coverage_error)"
    by blast
  from coverage_tool_validation [of ?good ?py "[''A'']" "[]"] g d
  have 2: "\<exists>fs. BIGWIG_OUTPUT ?py ?good [''A''] = Inr fs"
    by blast
  from 1 2 show ?thesis by blast
qed

text \<open>
  Claim C9: when only \<open>help\<close> is selected and the target table is built, the file
  list of \<open>help\<close> is empty and \<open>OUTPUT_FILES\<close> is the list of just the annotations
  archive, so no output of any sample is in it. The table is built, and the result is
  this list, for every sample sheet whose records have a name, either coverage tool, and
  an output directory and a mapper named without braces (\<open>expand\<close> reads a brace in
  them as part of a replacement field).
\<close>

theorem help_only_output_files:
  assumes "execution_target config = [''help'']"
  shows "(\<forall>tgs. workflow_targets py config SAMPLE_SHEET = Inr tgs \<longrightarrow>
            target_files tgs ''help'' = Inr []
            \<and> OUTPUT_FILES py config SAMPLE_SHEET
                = Inr [os_path_join (OUTPUT_DIR config) [''annotations.tgz'']])
       \<and> ((\<forall>line \<in> set SAMPLE_SHEET. ''name'' \<in> dom line)
            \<and> coverage_tool config \<in> {''bamCoverage'', ''megadepth''}
            \<and> brace_free (OUTPUT_DIR config) \<and> brace_free (MAPPER config) \<longrightarrow>
          OUTPUT_FILES py config SAMPLE_SHEET
            = Inr [os_path_join (OUTPUT_DIR config) [''annotations.tgz'']])"
proof -
  have table: "target_files tgs ''help'' = Inr []
      \<and> OUTPUT_FILES py config SAMPLE_SHEET
          = Inr [os_path_join (OUTPUT_DIR config) [''annotations.tgz'']]"
    if wt: "workflow_targets py config SAMPLE_SHEET = Inr tgs" for tgs
  proof -
    from workflow_targets_steps [OF wt] obtain samples bigwig col
      where "targets py config samples bigwig col = Inr tgs" by blast
    then have "target_files tgs ''help'' = Inr []" by (rule help_files)
    with wt assms show ?thesis
      by (simp add: OUTPUT_FILES_def selected_targets_def)
  qed
  have "OUTPUT_FILES py config SAMPLE_SHEET
      = Inr [os_path_join (OUTPUT_DIR config) [''annotations.tgz'']]"
    if names: "\<forall>line \<in> set SAMPLE_SHEET. ''name'' \<in> dom line"
      and tool: "coverage_tool config \<in> {''bamCoverage'', ''megadepth''}"
      and dirs: "brace_free (OUTPUT_DIR config)" "brace_free (MAPPER config)"
  proof -
    from BIGWIG_OUTPUT_valid [OF tool dirs] obtain bigwig
      where "BIGWIG_OUTPUT py config (map (\<lambda>line. the (line ''name'')) SAMPLE_SHEET) = Inr bigwig"
      by blast
    from workflow_targets_exists [OF SAMPLES_present [OF names] this dirs] obtain tgs
      where "workflow_targets py config SAMPLE_SHEET = Inr tgs" by blast
    with table show ?thesis by blast
  qed
  with table show ?thesis by blast
qed

theorem help_only_output_files_witness:
  "OUTPUT_FILES (\<lambda>name v rest. None)
       \<lparr>OUTPUT_DIR = ''out'', MAPPER = ''star'', coverage_tool = ''megadepth'',
        DE_ANALYSIS_LIST = [''treated_vs_control''], execution_target = [''help'']\<rparr>
     [[''name'' \<mapsto> ''A'', ''reads'' \<mapsto> ''a_1.fq'', ''reads2'' \<mapsto> ''a_2.fq''],
      [''name'' \<mapsto> ''B'', ''reads'' \<mapsto> ''b.fq'', ''reads2'' \<mapsto> []]]
   = Inr [''out/annotations.tgz'']"
proof -
  let ?py = "(\<lambda>name v rest. None) :: formatter"
  let ?config = "\<lparr>OUTPUT_DIR = ''out'', MAPPER = ''star'', coverage_tool = ''megadepth'',
       DE_ANALYSIS_LIST = [''treated_vs_control''], execution_target = [''help'']\<rparr>"
  let ?sheet = "[[''name'' \<mapsto> ''A'', ''reads'' \<mapsto> ''a_1.fq'', ''reads2'' \<mapsto> ''a_2.fq''],
      [''name'' \<mapsto> ''B'', ''reads'' \<mapsto> ''b.fq'', ''reads2'' \<mapsto> []]] :: sample_sheet"
  have h: "execution_target ?config = [''help'']" by simp
  have c: "(\<forall>line \<in> set ?sheet. ''name'' \<in> dom line)
      \<and> coverage_tool ?config \<in> {''bamCoverage'', ''megadepth''}
      \<and> brace_free (OUTPUT_DIR ?config) \<and> brace_free (MAPPER ?config)"
    by (simp add: brace_free_def)
  from help_only_output_files [OF h, of ?py ?sheet] c
  have "OUTPUT_FILES ?py ?config ?sheet
      = Inr [os_path_join (OUTPUT_DIR ?config) [''annotations.tgz'']]"
    by blast
  then show ?thesis
    by (simp add: os_path_join_def join_component_def)
qed

text \<open>
  Claim C1, as stated, fails when a group is requested twice: the path of the MultiQC
  report is twice in \<open>OUTPUT_FILES\<close>.
\<close>

theorem output_files_duplicates:
  "OUTPUT_FILES (\<lambda>name v rest. None)
       \<lparr>OUTPUT_DIR = ''out'', MAPPER = ''star'', coverage_tool = ''bamCoverage'',
        DE_ANALYSIS_LIST = [], execution_target = [''multiqc'', ''multiqc'']\<rparr>
     [[''name'' \<mapsto> ''A'']]
   = Inr [''out/multiqc/multiqc_report.html'', ''out/multiqc/multiqc_report.html'',
          ''out/annotations.tgz'']
   \<and> \<not> distinct [''out/multiqc/multiqc_report.html'', ''out/multiqc/multiqc_report.html'',
          ''out/annotations.tgz'']"
proof -
  let ?py = "(\<lambda>name v rest. None) :: formatter"
  let ?config = "\<lparr>OUTPUT_DIR = ''out'', MAPPER = ''star'', coverage_tool = ''bamCoverage'',
       DE_ANALYSIS_LIST = [], execution_target = [''multiqc'', ''multiqc'']\<rparr>"
  have dirs: "brace_free (OUTPUT_DIR ?config)" "brace_free (MAPPER ?config)"
    by (simp_all add: brace_free_def)
  have samples: "SAMPLES [[''name'' \<mapsto> ''A'']] = Inr [''A'']"
    by (simp add: SAMPLES_def getitem_def)
  have "coverage_tool ?config \<in> {''bamCoverage'', ''megadepth''}" by simp
  from BIGWIG_OUTPUT_valid [OF this dirs] obtain bw
    where "BIGWIG_OUTPUT ?py ?config [''A''] = Inr bw" by blast
  from workflow_targets_exists [OF samples this dirs] obtain col tgs
    where wt: "workflow_targets ?py ?config [[''name'' \<mapsto> ''A'']] = Inr tgs"
      and tgs: "targets ?py ?config [''A''] bw col = Inr tgs"
    by blast
  from wt multiqc_files [OF tgs]
  have "OUTPUT_FILES ?py ?config [[''name'' \<mapsto> ''A'']] =
      Inr [os_path_join (MULTIQC_DIR ?config) [''multiqc_report.html''],
           os_path_join (MULTIQC_DIR ?config) [''multiqc_report.html''],
           os_path_join (OUTPUT_DIR ?config) [''annotations.tgz'']]"
    by (simp add: OUTPUT_FILES_def selected_targets_def)
  then show ?thesis
    by (simp add: MULTIQC_DIR_def os_path_join_def join_component_def)
qed

text \<open>
  Claim C1, amended: when the target table is built and every requested name is one of
  its keys (an empty request stands for \<open>final-report\<close>), \<open>OUTPUT_FILES\<close> is the
  concatenation of the requested groups' file lists, in the order of the request,
  followed by the annotations archive. Nothing is removed: the paths in the list are
  those of the union of the file lists and the archive, and a path is repeated as often
  as the request yields it.
\<close>

theorem output_files_concatenation:
  assumes "workflow_targets py config SAMPLE_SHEET = Inr tgs"
    and "\<forall>name \<in> set (selected_targets config). name \<in> dom (map_of tgs)"
  shows "\<exists>fs. OUTPUT_FILES py config SAMPLE_SHEET = Inr fs
     \<and> fs = concat (map (\<lambda>name. files (the (map_of tgs name))) (selected_targets config))
            @ [os_path_join (OUTPUT_DIR config) [''annotations.tgz'']]
     \<and> set fs = (\<Union>name \<in> set (selected_targets config). set (files (the (map_of tgs name))))
                \<union> {os_path_join (OUTPUT_DIR config) [''annotations.tgz'']}"
proof -
  have "comprehension (target_files tgs) (selected_targets config)
      = Inr (map (\<lambda>name. files (the (map_of tgs name))) (selected_targets config))"
    using assms(2) by (intro comprehension_values) (simp add: target_files_present)
  then show ?thesis
    using assms(1) by (simp add: OUTPUT_FILES_def)
qed

theorem output_files_concatenation_witness:
  "OUTPUT_FILES (\<lambda>name v rest. None)
       \<lparr>OUTPUT_DIR = ''out'', MAPPER = ''star'', coverage_tool = ''megadepth'',
        DE_ANALYSIS_LIST = [], execution_target = [''genome_coverage'', ''multiqc'', ''help'']\<rparr>
     [[''name'' \<mapsto> ''A''], [''name'' \<mapsto> ''B'']]
   = Inr [''out/bigwig_files/star/megadepth/A.all.bw'', ''out/bigwig_files/star/megadepth/B.all.bw'',
          ''out/multiqc/multiqc_report.html'', ''out/annotations.tgz'']"
proof -
  let ?py = "(\<lambda>name v rest. None) :: formatter"
  let ?config = "\<lparr>OUTPUT_DIR = ''out'', MAPPER = ''star'', coverage_tool = ''megadepth'',
       DE_ANALYSIS_LIST = [], execution_target = [''genome_coverage'', ''multiqc'', ''help'']\<rparr>"
  let ?sheet = "[[''name'' \<mapsto> ''A''], [''name'' \<mapsto> ''B'']] :: sample_sheet"
  let ?bigwig = "[''out/bigwig_files/star/megadepth/A.all.bw'',
                  ''out/bigwig_files/star/megadepth/B.all.bw'']"
  have dirs: "brace_free (OUTPUT_DIR ?config)" "brace_free (MAPPER ?config)"
    by (simp_all add: brace_free_def)
  have samples: "SAMPLES ?sheet = Inr [''A'', ''B'']"
    by (simp add: SAMPLES_def getitem_def)
  have "BIGWIG_OUTPUT ?py ?config [''A'', ''B''] = Inr ?bigwig"
    using dirs
    by (simp add: megadepth_output BIGWIG_DIR_def os_path_join_def join_component_def
        slash_ended_def)
  from workflow_targets_exists [OF samples this dirs] obtain col tgs
    where wt: "workflow_targets ?py ?config ?sheet = Inr tgs"
      and tgs: "targets ?py ?config [''A'', ''B''] ?bigwig col = Inr tgs"
    by blast
  have names: "\<forall>name \<in> set (selected_targets ?config). name \<in> dom (map_of tgs)"
    by (simp only: targets_dom [OF tgs]) (simp add: selected_targets_def)
  have f1: "files (the (map_of tgs ''genome_coverage'')) = ?bigwig"
    using genome_coverage_files [OF tgs] target_files_present [of "''genome_coverage''" tgs]
    by (simp only: targets_dom [OF tgs]) simp
  have f2: "files (the (map_of tgs ''multiqc''))
      = [os_path_join (MULTIQC_DIR ?config) [''multiqc_report.html'']]"
    using multiqc_files [OF tgs] target_files_present [of "''multiqc''" tgs]
    by (simp only: targets_dom [OF tgs]) simp
  have f3: "files (the (map_of tgs ''help'')) = []"
    using help_files [OF tgs] target_files_present [of "''help''" tgs]
    by (simp only: targets_dom [OF tgs]) simp
  from output_files_concatenation [OF wt names]
  have "OUTPUT_FILES ?py ?config ?sheet =
      Inr (concat (map (\<lambda>name. files (the (map_of tgs name))) (selected_targets ?config))
           @ [os_path_join (OUTPUT_DIR ?config) [''annotations.tgz'']])"
    by blast
  also have "selected_targets ?config = [''genome_coverage'', ''multiqc'', ''help'']"
    by (simp add: selected_targets_def)
  finally show ?thesis
    by (simp only: list.map concat.simps f1 f2 f3)
       (simp add: MULTIQC_DIR_def os_path_join_def join_component_def)
qed

section \<open>The coverage target group\<close>

text \<open>
  Claim C7: for a sample sheet of exactly two records named \<open>A\<close> and \<open>B\<close>
  (whatever their reads fields hold) and an output directory and a mapper named without
  braces, the file list of \<open>genome_coverage\<close> has, with \<open>bamCoverage\<close>, exactly
  six pairwise different paths, the forward, reverse and combined bigwig file of each
  sample in one directory; with \<open>megadepth\<close> it has exactly two, one for each
  sample.
\<close>

theorem genome_coverage_two_samples:
  assumes "SAMPLE_SHEET = [a, b]" "a ''name'' = Some ''A''" "b ''name'' = Some ''B''"
    and "brace_free (OUTPUT_DIR config)" "brace_free (MAPPER config)"
  shows "(coverage_tool config = ''bamCoverage'' \<longrightarrow>
           (\<exists>tgs fs d. workflow_targets py config SAMPLE_SHEET = Inr tgs
              \<and> target_files tgs ''genome_coverage'' = Inr fs
              \<and> fs = [d @ ''A.forward.bw'', d @ ''B.forward.bw'', d @ ''A.reverse.bw'',
                       d @ ''B.reverse.bw'', d @ ''A.bw'', d @ ''B.bw'']
              \<and> length fs = 6 \<and> distinct fs))
       \<and> (coverage_tool config = ''megadepth'' \<longrightarrow>
           (\<exists>tgs fs d. workflow_targets py config SAMPLE_SHEET = Inr tgs
              \<and> target_files tgs ''genome_coverage'' = Inr fs
              \<and> fs = [d @ ''A.all.bw'', d @ ''B.all.bw'']
              \<and> length fs = 2 \<and> distinct fs))"
proof -
  have samples: "SAMPLES SAMPLE_SHEET = Inr [''A'', ''B'']"
    using assms(1-3) by (simp add: SAMPLES_def getitem_def)
  have table: "\<exists>tgs. workflow_targets py config SAMPLE_SHEET = Inr tgs
      \<and> target_files tgs ''genome_coverage'' = Inr fs"
    if "BIGWIG_OUTPUT py config [''A'', ''B''] = Inr fs" for fs
  proof -
    from workflow_targets_exists [OF samples that assms(4,5)] obtain col tgs
      where "workflow_targets py config SAMPLE_SHEET = Inr tgs"
        and "targets py config [''A'', ''B''] fs col = Inr tgs"
      by blast
    then show ?thesis by (blast intro: genome_coverage_files)
  qed
  show ?thesis
  proof (intro conjI impI)
    assume tool: "coverage_tool config = ''bamCoverage''"
    define d where "d = slash_ended (os_path_join (BIGWIG_DIR config) [MAPPER config, ''bamCoverage''])"
    define fs where "fs = [d @ ''A.forward.bw'', d @ ''B.forward.bw'', d @ ''A.reverse.bw'',
                       d @ ''B.reverse.bw'', d @ ''A.bw'', d @ ''B.bw'']"
    have "BIGWIG_OUTPUT py config [''A'', ''B''] = Inr fs"
      unfolding bamCoverage_output [OF tool assms(4,5)] fs_def d_def by simp
    from table [OF this] obtain tgs
      where 1: "workflow_targets py config SAMPLE_SHEET = Inr tgs"
        and 2: "target_files tgs ''genome_coverage'' = Inr fs"
      by blast
    have 3: "length fs = 6" by (simp add: fs_def)
    have 4: "distinct fs" by (simp add: fs_def)
    from 1 2 3 4 fs_def
    show "\<exists>tgs fs d. workflow_targets py config SAMPLE_SHEET = Inr tgs
              \<and> target_files tgs ''genome_coverage'' = Inr fs
              \<and> fs = [d @ ''A.forward.bw'', d @ ''B.forward.bw'', d @ ''A.reverse.bw'',
                       d @ ''B.reverse.bw'', d @ ''A.bw'', d @ ''B.bw'']
              \<and> length fs = 6 \<and> distinct fs"
      by blast
  next
    assume tool: "coverage_tool config = ''megadepth''"
    define d where "d = slash_ended (os_path_join (BIGWIG_DIR config) [MAPPER config, ''megadepth''])"
    define fs where "fs = [d @ ''A.all.bw'', d @ ''B.all.bw'']"
    have "BIGWIG_OUTPUT py config [''A'', ''B''] = Inr fs"
      unfolding megadepth_output [OF tool assms(4,5)] fs_def d_def by simp
    from table [OF this] obtain tgs
      where 1: "workflow_targets py config SAMPLE_SHEET = Inr tgs"
        and 2: "target_files tgs ''genome_coverage'' = Inr fs"
      by blast
    have 3: "length fs = 2" by (simp add: fs_def)
    have 4: "distinct fs" by (simp add: fs_def)
    from 1 2 3 4 fs_def
    show "\<exists>tgs fs d. workflow_targets py config SAMPLE_SHEET = Inr tgs
              \<and> target_files tgs ''genome_coverage'' = Inr fs
              \<and> fs = [d @ ''A.all.bw'', d @ ''B.all.bw'']
              \<and> length fs = 2 \<and> distinct fs"
      by blast
  qed
qed

theorem genome_coverage_two_samples_witness:
  "(\<exists>tgs. workflow_targets (\<lambda>name v rest. None)
         \<lparr>OUTPUT_DIR = ''out'', MAPPER = ''star'', coverage_tool = ''bamCoverage'',
          DE_ANALYSIS_LIST = [], execution_target = [''genome_coverage'']\<rparr>
       [[''name'' \<mapsto> ''A'', ''reads'' \<mapsto> ''a_1.fq'', ''reads2'' \<mapsto> ''a_2.fq''],
        [''name'' \<mapsto> ''B'', ''reads'' \<mapsto> ''b.fq'', ''reads2'' \<mapsto> []]] = Inr tgs
      \<and> target_files tgs ''genome_coverage'' =
          Inr [''out/bigwig_files/star/bamCoverage/A.forward.bw'',
               ''out/bigwig_files/star/bamCoverage/B.forward.bw'',
               ''out/bigwig_files/star/bamCoverage/A.reverse.bw'',
               ''out/bigwig_files/star/bamCoverage/B.reverse.bw'',
               ''out/bigwig_files/star/bamCoverage/A.bw'',
               ''out/bigwig_files/star/bamCoverage/B.bw''])
   \<and> (\<exists>tgs. workflow_targets (\<lambda>name v rest. None)
         \<lparr>OUTPUT_DIR = ''out'', MAPPER = ''star'', coverage_tool = ''megadepth'',
          DE_ANALYSIS_LIST = [], execution_target = [''genome_coverage'']\<rparr>
       [[''name'' \<mapsto> ''A'', ''reads'' \<mapsto> ''a_1.fq'', ''reads2'' \<mapsto> ''a_2.fq''],
        [''name'' \<mapsto> ''B'', ''reads'' \<mapsto> ''b.fq'', ''reads2'' \<mapsto> []]] = Inr tgs
      \<and> target_files tgs ''genome_coverage'' =
          Inr [''out/bigwig_files/star/megadepth/A.all.bw'',
               ''out/bigwig_files/star/megadepth/B.all.bw''])"
proof -
  let ?py = "(\<lambda>name v rest. None) :: formatter"
  let ?a = "[''name'' \<mapsto> ''A'', ''reads'' \<mapsto> ''a_1.fq'', ''reads2'' \<mapsto> ''a_2.fq''] :: sample_record"
  let ?b = "[''name'' \<mapsto> ''B'', ''reads'' \<mapsto> ''b.fq'', ''reads2'' \<mapsto> []] :: sample_record"
  let ?bam = "\<lparr>OUTPUT_DIR = ''out'', MAPPER = ''star'', coverage_tool = ''bamCoverage'',
         DE_ANALYSIS_LIST = [], execution_target = [''genome_coverage'']\<rparr>"
  let ?mega = "\<lparr>OUTPUT_DIR = ''out'', MAPPER = ''star'', coverage_tool = ''megadepth'',
         DE_ANALYSIS_LIST = [], execution_target = [''genome_coverage'']\<rparr>"
  have a: "?a ''name'' = Some ''A''" and b: "?b ''name'' = Some ''B''" by simp_all
  have t1: "coverage_tool ?bam = ''bamCoverage''" and t2: "coverage_tool ?mega = ''megadepth''"
    by simp_all
  have d1: "brace_free (OUTPUT_DIR ?bam)" "brace_free (MAPPER ?bam)"
    and d2: "brace_free (OUTPUT_DIR ?mega)" "brace_free (MAPPER ?mega)"
    by (simp_all add: brace_free_def)
  have p1: "slash_ended (os_path_join (BIGWIG_DIR ?bam) [MAPPER ?bam, ''bamCoverage''])
      = ''out/bigwig_files/star/bamCoverage/''"
    by (simp add: BIGWIG_DIR_def os_path_join_def join_component_def slash_ended_def)
  have p2: "slash_ended (os_path_join (BIGWIG_DIR ?mega) [MAPPER ?mega, ''megadepth''])
      = ''out/bigwig_files/star/megadepth/''"
    by (simp add: BIGWIG_DIR_def os_path_join_def join_component_def slash_ended_def)
  have "BIGWIG_OUTPUT ?py ?bam [''A'', ''B''] =
      Inr [''out/bigwig_files/star/bamCoverage/A.forward.bw'',
           ''out/bigwig_files/star/bamCoverage/B.forward.bw'',
           ''out/bigwig_files/star/bamCoverage/A.reverse.bw'',
           ''out/bigwig_files/star/bamCoverage/B.reverse.bw'',
           ''out/bigwig_files/star/bamCoverage/A.bw'',
           ''out/bigwig_files/star/bamCoverage/B.bw'']"
    unfolding bamCoverage_output [OF t1 d1] p1 by simp
  moreover have "SAMPLES [?a, ?b] = Inr [''A'', ''B'']"
    by (simp add: SAMPLES_def getitem_def)
  moreover from genome_coverage_two_samples [of "[?a, ?b]" ?a ?b ?bam ?py, OF refl a b d1] t1
  obtain tgs fs where "workflow_targets ?py ?bam [?a, ?b] = Inr tgs"
      "target_files tgs ''genome_coverage'' = Inr fs"
    by blast
  ultimately have 1: "\<exists>tgs. workflow_targets ?py ?bam [?a, ?b] = Inr tgs
      \<and> target_files tgs ''genome_coverage'' =
          Inr [''out/bigwig_files/star/bamCoverage/A.forward.bw'',
               ''out/bigwig_files/star/bamCoverage/B.forward.bw'',
               ''out/bigwig_files/star/bamCoverage/A.reverse.bw'',
               ''out/bigwig_files/star/bamCoverage/B.reverse.bw'',
               ''out/bigwig_files/star/bamCoverage/A.bw'',
               ''out/bigwig_files/star/bamCoverage/B.bw'']"
    by (auto dest!: workflow_targets_steps dest: genome_coverage_files)
  have "BIGWIG_OUTPUT ?py ?mega [''A'', ''B''] =
      Inr [''out/bigwig_files/star/megadepth/A.all.bw'',
           ''out/bigwig_files/star/megadepth/B.all.bw'']"
    unfolding megadepth_output [OF t2 d2] p2 by simp
  moreover have "SAMPLES [?a, ?b] = Inr [''A'', ''B'']"
    by (simp add: SAMPLES_def getitem_def)
  moreover from genome_coverage_two_samples [of "[?a, ?b]" ?a ?b ?mega ?py, OF refl a b d2] t2
  obtain tgs fs where "workflow_targets ?py ?mega [?a, ?b] = Inr tgs"
      "target_files tgs ''genome_coverage'' = Inr fs"
    by blast
  ultimately have 2: "\<exists>tgs. workflow_targets ?py ?mega [?a, ?b] = Inr tgs
      \<and> target_files tgs ''genome_coverage'' =
          Inr [''out/bigwig_files/star/megadepth/A.all.bw'',
               ''out/bigwig_files/star/megadepth/B.all.bw'']"
    by (auto dest!: workflow_targets_steps dest: genome_coverage_files)
  from 1 2 show ?thesis by blast
qed

section \<open>Flattening once and twice\<close>






end
